theory Spec2Isabelle
  imports Complex_Main
begin

section \<open>Python values, exceptions and the configuration mapping\<close>

text \<open>
  The configuration is whatever \<^verbatim>\<open>json.load\<close> returns, so it is modelled by the Python
  values JSON can produce. A \<^verbatim>\<open>str\<close> is kept as its UTF-8 bytes, a \<^verbatim>\<open>dict\<close> as an
  association list read with \<open>map_of\<close> (keys of a JSON object are strings), and a
  \<^verbatim>\<open>float\<close> as the rational number its literal denotes: rounding to IEEE doubles,
  infinities and NaN are not modelled.
\<close>

datatype pyval =
    PNone
  | PBool bool
  | PInt int
  | PFloat rat
  | PStr string
  | PList "pyval list"
  | PDict "(string \<times> pyval) list"

datatype exn_class =
    FileNotFoundError
  | PermissionError
  | JSONDecodeError
  | KeyError
  | TypeError
  | ValueError
  | IndexError
  | TimeoutException
  | NoSuchElementException
  | WebDriverException

text \<open>
  An exception is its class and the text \<^verbatim>\<open>str(e)\<close> gives. Every class above derives
  from \<^verbatim>\<open>Exception\<close>, so \<^verbatim>\<open>except Exception\<close> catches each of them; asynchronous
  \<^verbatim>\<open>BaseException\<close>s (a keyboard interrupt) are outside the model.
\<close>

datatype exn = Exn (cls: exn_class) (str: string)

text \<open>
  \<^verbatim>\<open>obj[key]\<close> for a string key. The text kept for a KeyError is the key itself;
  \<^verbatim>\<open>str\<close> of a KeyError puts it in quotes.
\<close>

fun getitem :: "pyval \<Rightarrow> string \<Rightarrow> exn + pyval" where
  "getitem (PDict kvs) key =
     (case map_of kvs key of
        None \<Rightarrow> Inl (Exn KeyError key)
      | Some v \<Rightarrow> Inr v)"
| "getitem (PList xs) key = Inl (Exn TypeError ''list indices must be integers or slices, not str'')"
| "getitem (PStr s) key = Inl (Exn TypeError ''string indices must be integers, not str'')"
| "getitem v key = Inl (Exn TypeError ''object is not subscriptable'')"

text \<open>Truth value testing, as \<^verbatim>\<open>or\<close> and \<^verbatim>\<open>if\<close> apply it.\<close>

fun truthy :: "pyval \<Rightarrow> bool" where
  "truthy PNone = False"
| "truthy (PBool b) = b"
| "truthy (PInt n) = (n \<noteq> 0)"
| "truthy (PFloat x) = (x \<noteq> 0)"
| "truthy (PStr s) = (s \<noteq> [])"
| "truthy (PList xs) = (xs \<noteq> [])"
| "truthy (PDict kvs) = (kvs \<noteq> [])"

text \<open>The numeric value of an \<^verbatim>\<open>int\<close>, \<^verbatim>\<open>float\<close> or \<^verbatim>\<open>bool\<close>; nothing else is a number.\<close>

fun number :: "pyval \<Rightarrow> rat option" where
  "number (PInt n) = Some (of_int n)"
| "number (PFloat x) = Some x"
| "number (PBool b) = Some (if b then 1 else 0)"
| "number v = None"

text \<open>\<^verbatim>\<open>xs[:stop]\<close> on a list: a negative stop counts from the end, \<^verbatim>\<open>None\<close> keeps all.\<close>

fun slice_to :: "'a list \<Rightarrow> pyval \<Rightarrow> exn + 'a list" where
  "slice_to xs PNone = Inr xs"
| "slice_to xs (PInt n) =
     (if 0 \<le> n then Inr (take (nat n) xs)
      else Inr (take (nat (int (length xs) + n)) xs))"
| "slice_to xs (PBool b) = Inr (take (if b then 1 else 0) xs)"
| "slice_to xs v =
     Inl (Exn TypeError ''slice indices must be integers or None or have an __index__ method'')"

text \<open>\<^verbatim>\<open>r < p\<close> for a float \<open>r\<close>.\<close>

definition float_lt :: "rat \<Rightarrow> pyval \<Rightarrow> exn + bool" where
  "float_lt r p =
     (case number p of
        None \<Rightarrow> Inl (Exn TypeError ''< not supported between these instances'')
      | Some x \<Rightarrow> Inr (r < x))"

section \<open>Loading the configuration\<close>

text \<open>
  \<^verbatim>\<open>open\<close> and \<^verbatim>\<open>json.load\<close> belong to the standard library and are parameters:
  \<open>open_read path\<close> is the text of the file or the exception \<^verbatim>\<open>open\<close> raises, and
  \<open>json_load text\<close> the parsed value or the decoder's exception.
\<close>

definition default_config :: pyval where
  "default_config =
     PDict [
       (''wait_time'', PDict [(''min'', PInt 2), (''max'', PInt 4)]),
       (''posts_per_user'', PInt 3),
       (''max_likes_per_session'', PInt 50),
       (''random_comments'', PList [
          PStr (''Great post! '' @ [CHR 0xF0, CHR 0x9F, CHR 0x91, CHR 0x8D]),
          PStr (''Amazing! '' @ [CHR 0xF0, CHR 0x9F, CHR 0x94, CHR 0xA5]),
          PStr (''Love this! '' @ [CHR 0xE2, CHR 0x9D, CHR 0xA4, CHR 0xEF, CHR 0xB8, CHR 0x8F]),
          PStr (''Awesome content! '' @ [CHR 0xE2, CHR 0x9C, CHR 0xA8])]),
       (''comment_probability'', PFloat (2 / 10))]"

definition load_config ::
  "(string \<Rightarrow> exn + string) \<Rightarrow> (string \<Rightarrow> exn + pyval) \<Rightarrow> string \<Rightarrow> exn + pyval" where
  "load_config open_read json_load config_path =
     (case (case open_read config_path of
              Inl e \<Rightarrow> Inl e
            | Inr f \<Rightarrow> json_load f) of
        Inl e \<Rightarrow> if cls e = FileNotFoundError then Inr default_config else Inl e
      | Inr v \<Rightarrow> Inr v)"

section \<open>The session object and its environment\<close>

text \<open>
  The browser, the clock and the random generator are outside the program. Their state is
  an arbitrary \<open>'w\<close>, and an environment gives the outcome of each call of the WebDriver
  API on it: the exception raised, or the value returned. \<open>rand_bits\<close> are the 53 random
  bits from which \<^verbatim>\<open>random.random()\<close> builds its float, \<open>rand_below n\<close> the draw from
  which \<^verbatim>\<open>random.choice\<close> takes an index below \<open>n\<close>.
\<close>

type_synonym element = nat

datatype By = By_NAME | By_CSS_SELECTOR

type_synonym locator = "By \<times> string"

record 'w env =
  open_log_file :: "'w \<Rightarrow> (exn + unit) \<times> 'w"
  start_driver :: "'w \<Rightarrow> (exn + unit) \<times> 'w"
  driver_get :: "string \<Rightarrow> 'w \<Rightarrow> (exn + unit) \<times> 'w"
  presence_of_element_located :: "locator \<Rightarrow> 'w \<Rightarrow> (exn + element) \<times> 'w"
  presence_of_all_elements_located :: "locator \<Rightarrow> 'w \<Rightarrow> (exn + element list) \<times> 'w"
  element_click :: "element \<Rightarrow> 'w \<Rightarrow> (exn + unit) \<times> 'w"
  element_send_keys :: "element \<Rightarrow> pyval \<Rightarrow> 'w \<Rightarrow> (exn + unit) \<times> 'w"
  element_submit :: "element \<Rightarrow> 'w \<Rightarrow> (exn + unit) \<times> 'w"
  driver_quit :: "'w \<Rightarrow> (exn + unit) \<times> 'w"
  rand_bits :: "'w \<Rightarrow> nat \<times> 'w"
  rand_below :: "nat \<Rightarrow> 'w \<Rightarrow> nat \<times> 'w"
  time_sleep :: "rat \<Rightarrow> 'w \<Rightarrow> 'w"

text \<open>
  What the session does is recorded in \<open>trace\<close>: one event for each call issued to the
  browser or the clock, and a marker where a method or a loop body is entered. The trace
  is a ghost field; the program never reads it.
\<close>

datatype event =
    Enter_login
  | Enter_interact_with_user string
  | Enter_post nat
  | Enter_leave_comment pyval
  | Enter_cleanup
  | Driver_get string
  | Wait_until locator
  | Click element
  | Send_keys element pyval
  | Submit element
  | Driver_quit
  | Sleep rat

datatype level = INFO | ERROR

text \<open>A log message is an f-string: literal text and formatted values.\<close>

datatype frag = Lit string | Arg pyval

record 'w bot =
  username :: string
  password :: string
  config :: pyval
  world :: 'w
  trace :: "event list"
  logged :: "(level \<times> frag list) list"

text \<open>
  A method of the session takes \<^verbatim>\<open>self\<close> and gives back the exception it raised or the
  value it returned, with \<^verbatim>\<open>self\<close> as the method left it.
\<close>

type_synonym ('w, 'a) action = "'w bot \<Rightarrow> (exn + 'a) \<times> 'w bot"

definition ret :: "'a \<Rightarrow> ('w, 'a) action" where
  "ret x b = (Inr x, b)"

definition lift :: "exn + 'a \<Rightarrow> ('w, 'a) action" where
  "lift r b = (r, b)"

definition bind :: "('w, 'a) action \<Rightarrow> ('a \<Rightarrow> ('w, 'c) action) \<Rightarrow> ('w, 'c) action" where
  "bind m k b = (case m b of (Inl e, b') \<Rightarrow> (Inl e, b') | (Inr x, b') \<Rightarrow> k x b')"

text \<open>\<^verbatim>\<open>try: m except Exception as e: h(e)\<close>\<close>

definition try_except :: "('w, 'a) action \<Rightarrow> (exn \<Rightarrow> ('w, 'a) action) \<Rightarrow> ('w, 'a) action" where
  "try_except m h b = (case m b of (Inl e, b') \<Rightarrow> h e b' | (Inr x, b') \<Rightarrow> (Inr x, b'))"

text \<open>
  \<^verbatim>\<open>try: m finally: f\<close>: \<open>f\<close> runs however \<open>m\<close> ended; the outcome is that of \<open>m\<close>
  unless \<open>f\<close> itself raises.
\<close>

definition try_finally :: "('w, 'a) action \<Rightarrow> ('w, unit) action \<Rightarrow> ('w, 'a) action" where
  "try_finally m f b =
     (case m b of (r, b') \<Rightarrow>
        (case f b' of (Inl e, b'') \<Rightarrow> (Inl e, b'') | (Inr u, b'') \<Rightarrow> (r, b'')))"

definition get_attr :: "('w bot \<Rightarrow> 'a) \<Rightarrow> ('w, 'a) action" where
  "get_attr f b = (Inr (f b), b)"

definition emit :: "event \<Rightarrow> ('w, unit) action" where
  "emit ev b = (Inr (), b\<lparr>trace := trace b @ [ev]\<rparr>)"

definition extern :: "('w \<Rightarrow> (exn + 'a) \<times> 'w) \<Rightarrow> ('w, 'a) action" where
  "extern f b = (case f (world b) of (r, w') \<Rightarrow> (r, b\<lparr>world := w'\<rparr>))"

definition call :: "event \<Rightarrow> ('w \<Rightarrow> (exn + 'a) \<times> 'w) \<Rightarrow> ('w, 'a) action" where
  "call ev f = bind (emit ev) (\<lambda>_. extern f)"

text \<open>
  \<^verbatim>\<open>self.logger.info\<close> and \<^verbatim>\<open>self.logger.error\<close>: the logging module handles the errors
  of its handlers itself, so a logging call returns.
\<close>

definition logger :: "level \<Rightarrow> frag list \<Rightarrow> ('w, unit) action" where
  "logger lvl msg b = (Inr (), b\<lparr>logged := logged b @ [(lvl, msg)]\<rparr>)"

text \<open>\<^verbatim>\<open>self.config[key]\<close> and \<^verbatim>\<open>self.config[key1][key2]\<close>\<close>

definition config_item :: "string \<Rightarrow> ('w, pyval) action" where
  "config_item key = bind (get_attr config) (\<lambda>c. lift (getitem c key))"

definition config_item2 :: "string \<Rightarrow> string \<Rightarrow> ('w, pyval) action" where
  "config_item2 key1 key2 = bind (config_item key1) (\<lambda>v. lift (getitem v key2))"

section \<open>The methods of InstagramBot\<close>

text \<open>
  \<^verbatim>\<open>__init__\<close>: the configuration is loaded once, then logging and the driver are set
  up. An exception of any of the three steps leaves no session object.
\<close>

definition init ::
  "(string \<Rightarrow> exn + string) \<Rightarrow> (string \<Rightarrow> exn + pyval) \<Rightarrow> 'w env \<Rightarrow>
     string \<Rightarrow> string \<Rightarrow> string \<Rightarrow> 'w \<Rightarrow> exn + 'w bot" where
  "init open_read json_load env user pass config_path w =
     (case load_config open_read json_load config_path of
        Inl e \<Rightarrow> Inl e
      | Inr c \<Rightarrow>
          (case open_log_file env w of
             (Inl e, w1) \<Rightarrow> Inl e
           | (Inr u, w1) \<Rightarrow>
               (case start_driver env w1 of
                  (Inl e, w2) \<Rightarrow> Inl e
                | (Inr u, w2) \<Rightarrow>
                    Inr \<lparr>username = user, password = pass, config = c, world = w2,
                         trace = [], logged = []\<rparr>)))"

text \<open>\<^verbatim>\<open>random.random()\<close>: a multiple of \<open>2 ^ -53\<close> in \<open>[0, 1)\<close>.\<close>

definition random_random :: "'w env \<Rightarrow> ('w, rat) action" where
  "random_random env =
     extern (\<lambda>w. case rand_bits env w of (k, w') \<Rightarrow> (Inr (of_nat (k mod 2 ^ 53) / 2 ^ 53), w'))"

text \<open>
  \<^verbatim>\<open>random.uniform(a, b)\<close> is \<^verbatim>\<open>a + (b - a) * self.random()\<close>: the subtraction raises
  on anything that is not a number, before a random number is drawn. The arithmetic is
  exact here: the OverflowError of an integer too large for a float is not modelled.
\<close>

definition random_uniform :: "'w env \<Rightarrow> pyval \<Rightarrow> pyval \<Rightarrow> ('w, rat) action" where
  "random_uniform env a b =
     (case number a of
        None \<Rightarrow> lift (Inl (Exn TypeError ''unsupported operand type(s) for -''))
      | Some x \<Rightarrow>
          (case number b of
             None \<Rightarrow> lift (Inl (Exn TypeError ''unsupported operand type(s) for -''))
           | Some y \<Rightarrow> bind (random_random env) (\<lambda>r. ret (x + (y - x) * r))))"

text \<open>
  \<^verbatim>\<open>random.choice(seq)\<close>: \<^verbatim>\<open>seq[i]\<close> for a random \<open>i\<close> below \<^verbatim>\<open>len(seq)\<close>, an IndexError
  on an empty sequence. A non-empty dict has a length but no integer key. Of a string it
  picks one character, here one element of the list of bytes.
\<close>

definition pick :: "'w env \<Rightarrow> 'a list \<Rightarrow> ('w, 'a) action" where
  "pick env xs =
     (if xs = [] then lift (Inl (Exn IndexError ''Cannot choose from an empty sequence''))
      else extern (\<lambda>w. case rand_below env (length xs) w of
                          (i, w') \<Rightarrow> (Inr (xs ! (i mod length xs)), w')))"

fun random_choice :: "'w env \<Rightarrow> pyval \<Rightarrow> ('w, pyval) action" where
  "random_choice env (PList xs) = pick env xs"
| "random_choice env (PStr s) = bind (pick env s) (\<lambda>c. ret (PStr [c]))"
| "random_choice env (PDict kvs) =
     bind (pick env kvs) (\<lambda>kv. lift (Inl (Exn KeyError ''integer key'')))"
| "random_choice env v = lift (Inl (Exn TypeError ''object has no len()''))"

text \<open>\<^verbatim>\<open>time.sleep(secs)\<close> refuses a negative length.\<close>

definition sleep :: "'w env \<Rightarrow> rat \<Rightarrow> ('w, unit) action" where
  "sleep env secs =
     (if secs < 0 then lift (Inl (Exn ValueError ''sleep length must be non-negative''))
      else call (Sleep secs) (\<lambda>w. (Inr (), time_sleep env secs w)))"

text \<open>
  \<^verbatim>\<open>random_sleep\<close>: \<^verbatim>\<open>x or y\<close> is \<open>x\<close> when \<open>x\<close> is true and evaluates \<open>y\<close> only
  otherwise. A call without arguments passes \<^verbatim>\<open>None\<close> twice.
\<close>

definition random_sleep :: "'w env \<Rightarrow> pyval \<Rightarrow> pyval \<Rightarrow> ('w, unit) action" where
  "random_sleep env min_time max_time =
     bind (if truthy min_time then ret min_time
           else config_item2 ''wait_time'' ''min'') (\<lambda>min_time.
     bind (if truthy max_time then ret max_time
           else config_item2 ''wait_time'' ''max'') (\<lambda>max_time.
     bind (random_uniform env min_time max_time) (\<lambda>secs.
     sleep env secs)))"

text \<open>
  \<^verbatim>\<open>self.wait.until(EC.presence_of_element_located(locator))\<close> and its plural: the
  element found, or the TimeoutException of the wait.
\<close>

definition wait_until :: "'w env \<Rightarrow> locator \<Rightarrow> ('w, element) action" where
  "wait_until env loc = call (Wait_until loc) (presence_of_element_located env loc)"

definition wait_until_all :: "'w env \<Rightarrow> locator \<Rightarrow> ('w, element list) action" where
  "wait_until_all env loc = call (Wait_until loc) (presence_of_all_elements_located env loc)"

definition click :: "'w env \<Rightarrow> element \<Rightarrow> ('w, unit) action" where
  "click env el = call (Click el) (element_click env el)"

definition send_keys :: "'w env \<Rightarrow> element \<Rightarrow> pyval \<Rightarrow> ('w, unit) action" where
  "send_keys env el keys = call (Send_keys el keys) (element_send_keys env el keys)"

definition submit :: "'w env \<Rightarrow> element \<Rightarrow> ('w, unit) action" where
  "submit env el = call (Submit el) (element_submit env el)"

definition login :: "'w env \<Rightarrow> ('w, bool) action" where
  "login env =
     bind (emit Enter_login) (\<lambda>_.
     try_except
       (bind (get_attr username) (\<lambda>user.
        bind (logger INFO [Lit ''Attempting to log in as '', Arg (PStr user)]) (\<lambda>_.
        bind (call (Driver_get ''https://www.instagram.com/accounts/login/'')
                (driver_get env ''https://www.instagram.com/accounts/login/'')) (\<lambda>_.
        bind (wait_until env (By_NAME, ''username'')) (\<lambda>username_input.
        bind (wait_until env (By_NAME, ''password'')) (\<lambda>password_input.
        bind (send_keys env username_input (PStr user)) (\<lambda>_.
        bind (get_attr password) (\<lambda>pass.
        bind (send_keys env password_input (PStr pass)) (\<lambda>_.
        bind (submit env password_input) (\<lambda>_.
        bind (wait_until env (By_CSS_SELECTOR, ''main[role='' @ [CHR 0x27] @ ''main'' @ [CHR 0x27] @ '']'')) (\<lambda>_.
        bind (logger INFO [Lit ''Successfully logged in'']) (\<lambda>_.
        ret True))))))))))))
       (\<lambda>e. if cls e = TimeoutException
            then bind (logger ERROR [Lit ''Login failed - timeout while waiting for elements''])
                   (\<lambda>_. ret False)
            else bind (logger ERROR [Lit ''Login failed - unexpected error: '', Arg (PStr (str e))])
                   (\<lambda>_. ret False)))"

definition leave_comment :: "'w env \<Rightarrow> pyval \<Rightarrow> ('w, unit) action" where
  "leave_comment env comment_text =
     bind (emit (Enter_leave_comment comment_text)) (\<lambda>_.
     try_except
       (bind (wait_until env
                (By_CSS_SELECTOR,
                 ''textarea[aria-label='' @ [CHR 0x27] @ ''Add a comment''
                   @ [CHR 0xE2, CHR 0x80, CHR 0xA6, CHR 0x27] @ '']'')) (\<lambda>comment_input.
        bind (click env comment_input) (\<lambda>_.
        bind (send_keys env comment_input comment_text) (\<lambda>_.
        bind (submit env comment_input) (\<lambda>_.
        bind (logger INFO [Lit ''Left comment: '', Arg comment_text]) (\<lambda>_.
        random_sleep env PNone PNone))))))
       (\<lambda>e. logger ERROR [Lit ''Failed to leave comment: '', Arg (PStr (str e))]))"

text \<open>
  The body of the loop over the posts, for the post at index \<open>i\<close>. \<^verbatim>\<open>wait.until\<close>
  returns only a value that is true, so \<^verbatim>\<open>if like_button:\<close> always takes its branch.
  In \<^verbatim>\<open>random.random() < self.config['comment_probability']\<close> the number is drawn
  before the configuration is read.
\<close>

definition visit_post :: "'w env \<Rightarrow> string \<Rightarrow> nat \<Rightarrow> element \<Rightarrow> ('w, unit) action" where
  "visit_post env user i post =
     bind (emit (Enter_post i)) (\<lambda>_.
     try_except
       (bind (click env post) (\<lambda>_.
        bind (random_sleep env PNone PNone) (\<lambda>_.
        bind (wait_until env
                (By_CSS_SELECTOR, ''svg[aria-label='' @ [CHR 0x27] @ ''Like'' @ [CHR 0x27] @ '']'')) (\<lambda>like_button.
        bind (click env like_button) (\<lambda>_.
        bind (logger INFO [Lit ''Liked post '', Arg (PInt (int i + 1)), Lit '' from '',
                           Arg (PStr user)]) (\<lambda>_.
        bind (random_random env) (\<lambda>r.
        bind (config_item ''comment_probability'') (\<lambda>p.
        bind (lift (float_lt r p)) (\<lambda>comment.
        bind (if comment
              then bind (config_item ''random_comments'') (\<lambda>comments.
                   bind (random_choice env comments) (\<lambda>comment_text.
                   leave_comment env comment_text))
              else ret ()) (\<lambda>_.
        bind (wait_until env
                (By_CSS_SELECTOR, ''svg[aria-label='' @ [CHR 0x27] @ ''Close'' @ [CHR 0x27] @ '']'')) (\<lambda>close_button.
        bind (click env close_button) (\<lambda>_.
        random_sleep env PNone PNone))))))))))))
       (\<lambda>e. logger ERROR [Lit ''Error interacting with post '', Arg (PInt (int i + 1)),
                          Lit '': '', Arg (PStr (str e))]))"

text \<open>\<^verbatim>\<open>for i, post in enumerate(posts)\<close>, from index \<open>i\<close> on.\<close>

fun visit_posts :: "'w env \<Rightarrow> string \<Rightarrow> nat \<Rightarrow> element list \<Rightarrow> ('w, unit) action" where
  "visit_posts env user i [] = ret ()"
| "visit_posts env user i (post # posts) =
     bind (visit_post env user i post) (\<lambda>_. visit_posts env user (Suc i) posts)"

definition interact_with_user :: "'w env \<Rightarrow> string \<Rightarrow> ('w, unit) action" where
  "interact_with_user env user =
     bind (emit (Enter_interact_with_user user)) (\<lambda>_.
     try_except
       (bind (logger INFO [Lit ''Navigating to '', Arg (PStr user),
                           Lit ([CHR 0x27] @ ''s profile'')]) (\<lambda>_.
        bind (call (Driver_get (''https://www.instagram.com/'' @ user @ ''/''))
                (driver_get env (''https://www.instagram.com/'' @ user @ ''/''))) (\<lambda>_.
        bind (random_sleep env PNone PNone) (\<lambda>_.
        bind (wait_until_all env (By_CSS_SELECTOR, ''article a'')) (\<lambda>found.
        bind (config_item ''posts_per_user'') (\<lambda>stop.
        bind (lift (slice_to found stop)) (\<lambda>posts.
        visit_posts env user 0 posts)))))))
       (\<lambda>e. logger ERROR [Lit ''Error accessing '', Arg (PStr user),
                          Lit ([CHR 0x27] @ ''s profile: ''), Arg (PStr (str e))]))"

definition cleanup :: "'w env \<Rightarrow> ('w, unit) action" where
  "cleanup env =
     bind (emit Enter_cleanup) (\<lambda>_.
     try_except
       (bind (call Driver_quit (driver_quit env)) (\<lambda>_.
        logger INFO [Lit ''Bot session ended, browser closed'']))
       (\<lambda>e. logger ERROR [Lit ''Error during cleanup: '', Arg (PStr (str e))]))"

text \<open>\<^verbatim>\<open>for username in target_users\<close>\<close>

fun visit_users :: "'w env \<Rightarrow> string list \<Rightarrow> ('w, unit) action" where
  "visit_users env [] = ret ()"
| "visit_users env (user # users) =
     bind (interact_with_user env user) (\<lambda>_.
     bind (random_sleep env (PInt 4) (PInt 7)) (\<lambda>_.
     visit_users env users))"

text \<open>The argument of \<^verbatim>\<open>run\<close> is a list of names or one name.\<close>

datatype target_users = Names "string list" | Name string

definition run :: "'w env \<Rightarrow> target_users \<Rightarrow> ('w, unit) action" where
  "run env target_users =
     try_finally
       (try_except
          (bind (ret (case target_users of Name s \<Rightarrow> [s] | Names users \<Rightarrow> users)) (\<lambda>target_users.
           bind (login env) (\<lambda>ok.
           if \<not> ok then ret ()
           else visit_users env target_users)))
          (\<lambda>e. logger ERROR [Lit ''Bot execution failed: '', Arg (PStr (str e))]))
       (cleanup env)"

section \<open>Observations and examples\<close>

text \<open>
  The configuration the specification expects from a file that sets one field: the
  mapping \<open>c\<close> with \<open>key\<close> set to \<open>v\<close>, every other field as in \<open>c\<close>.
\<close>

fun with_field :: "pyval \<Rightarrow> string \<Rightarrow> pyval \<Rightarrow> pyval" where
  "with_field (PDict kvs) key v = PDict (map (\<lambda>(k, x). if k = key then (k, v) else (k, x)) kvs)"
| "with_field c key v = c"


fun entered_profile :: "event \<Rightarrow> bool" where
  "entered_profile (Enter_interact_with_user user) = True"
| "entered_profile ev = False"

text \<open>The calls on a page of the browser and on the clock: every call but the quit.\<close>

fun page_call :: "event \<Rightarrow> bool" where
  "page_call (Driver_get url) = True"
| "page_call (Wait_until loc) = True"
| "page_call (Click el) = True"
| "page_call (Send_keys el keys) = True"
| "page_call (Submit el) = True"
| "page_call (Sleep secs) = True"
| "page_call ev = False"




text \<open>
  An action is quiet for a set \<open>P\<close> of events when it leaves the attributes of the
  session and the events of \<open>P\<close> in the trace as they were.
\<close>

definition quiet :: "(event \<Rightarrow> bool) \<Rightarrow> ('w, 'a) action \<Rightarrow> bool" where
  "quiet P m \<longleftrightarrow>
     (\<forall>b. config (snd (m b)) = config b \<and> username (snd (m b)) = username b \<and>
          password (snd (m b)) = password b \<and>
          filter P (trace (snd (m b))) = filter P (trace b))"

text \<open>An action returns when no exception leaves it.\<close>

definition returns :: "('w, 'a) action \<Rightarrow> bool" where
  "returns m \<longleftrightarrow> (\<forall>b. \<not> isl (fst (m b)))"

text \<open>
  Two configurations that differ at most in \<^verbatim>\<open>max_likes_per_session\<close>, and two sessions
  that differ at most in such configurations.
\<close>

fun same_but_cap :: "pyval \<Rightarrow> pyval \<Rightarrow> bool" where
  "same_but_cap (PDict kvs1) (PDict kvs2) \<longleftrightarrow>
     (\<forall>key \<in> set (map fst kvs1 @ map fst kvs2).
        key = ''max_likes_per_session'' \<or> map_of kvs1 key = map_of kvs2 key)"
| "same_but_cap c1 c2 \<longleftrightarrow> c1 = c2"

definition alike :: "'w bot \<Rightarrow> 'w bot \<Rightarrow> bool" where
  "alike b1 b2 \<longleftrightarrow>
     username b1 = username b2 \<and> password b1 = password b2 \<and> world b1 = world b2 \<and>
     trace b1 = trace b2 \<and> logged b1 = logged b2 \<and> same_but_cap (config b1) (config b2)"

definition cap_blind :: "('w, 'a) action \<Rightarrow> bool" where
  "cap_blind m \<longleftrightarrow>
     (\<forall>b1 b2. alike b1 b2 \<longrightarrow> fst (m b1) = fst (m b2) \<and> alike (snd (m b1)) (snd (m b2)))"

text \<open>
  An example: a file system with one configuration file that sets one field, and the
  decoder on the text of that file.
\<close>

definition example_open :: "string \<Rightarrow> exn + string" where
  \<open>example_open path =
     (if path = ''config.json'' then Inr ''{"posts_per_user": 5}''
      else Inl (Exn FileNotFoundError ''No such file or directory''))\<close>

definition example_json_load :: "string \<Rightarrow> exn + pyval" where
  \<open>example_json_load text =
     (if text = ''{"posts_per_user": 5}'' then Inr (PDict [(''posts_per_user'', PInt 5)])
      else Inl (Exn JSONDecodeError ''Expecting value''))\<close>

text \<open>
  An example browser whose state counts the calls it has answered. The profile page
  shows three posts; clicking a post fails with an element that is not found. The login
  page loads or times out.
\<close>

definition example_env :: "bool \<Rightarrow> nat env" where
  "example_env page_loads =
     \<lparr>open_log_file = (\<lambda>w. (Inr (), w)),
      start_driver = (\<lambda>w. (Inr (), w)),
      driver_get = (\<lambda>url w. (Inr (), Suc w)),
      presence_of_element_located =
        (\<lambda>loc w. (if page_loads then Inr 1 else Inl (Exn TimeoutException ''timeout''), Suc w)),
      presence_of_all_elements_located = (\<lambda>loc w. (Inr [10, 11, 12], Suc w)),
      element_click =
        (\<lambda>el w. (if 10 \<le> el then Inl (Exn NoSuchElementException ''no such element'')
                  else Inr (), Suc w)),
      element_send_keys = (\<lambda>el keys w. (Inr (), Suc w)),
      element_submit = (\<lambda>el w. (Inr (), Suc w)),
      driver_quit = (\<lambda>w. (Inr (), Suc w)),
      rand_bits = (\<lambda>w. (0, w)),
      rand_below = (\<lambda>n w. (0, w)),
      time_sleep = (\<lambda>secs w. Suc w)\<rparr>"

definition example_bot :: "pyval \<Rightarrow> nat bot" where
  "example_bot c =
     \<lparr>username = ''sandanu_hewage'', password = [], config = c, world = 0,
      trace = [], logged = []\<rparr>"

section \<open>Loading the configuration: properties\<close>

text \<open>
  C2. When the configuration file is missing, \<open>load_config\<close> returns exactly the default
  configuration: wait_time with min 2 and max 4, posts_per_user 3, max_likes_per_session 50,
  the four canned comments and comment_probability 0.2.
\<close>

theorem load_config_missing:
  assumes "open_read config_path = Inl e" and "cls e = FileNotFoundError"
  shows "load_config open_read json_load config_path =
           Inr (PDict [
             (''wait_time'', PDict [(''min'', PInt 2), (''max'', PInt 4)]),
             (''posts_per_user'', PInt 3),
             (''max_likes_per_session'', PInt 50),
             (''random_comments'', PList [
                PStr (''Great post! '' @ [CHR 0xF0, CHR 0x9F, CHR 0x91, CHR 0x8D]),
                PStr (''Amazing! '' @ [CHR 0xF0, CHR 0x9F, CHR 0x94, CHR 0xA5]),
                PStr (''Love this! '' @ [CHR 0xE2, CHR 0x9D, CHR 0xA4, CHR 0xEF, CHR 0xB8, CHR 0x8F]),
                PStr (''Awesome content! '' @ [CHR 0xE2, CHR 0x9C, CHR 0xA8])]),
             (''comment_probability'', PFloat (2 / 10))])"
  using assms by (simp add: load_config_def default_config_def)

theorem load_config_missing_witness:
  "example_open ''settings.json'' = Inl (Exn FileNotFoundError ''No such file or directory'') \<and>
   cls (Exn FileNotFoundError ''No such file or directory'') = FileNotFoundError \<and>
   getitem (projr (load_config example_open example_json_load ''settings.json''))
     ''posts_per_user'' = Inr (PInt 3)"
  using load_config_missing [of example_open "''settings.json''"
      "Exn FileNotFoundError ''No such file or directory''" example_json_load]
  by (simp add: example_open_def)

text \<open>
  C1 does not hold: a file that sets only posts_per_user gives a configuration with that
  one key; wait_time is missing from it, where the default configuration with the field
  changed has it.
\<close>

theorem load_config_one_field_counterexample:
  "load_config example_open example_json_load ''config.json''
     = Inr (PDict [(''posts_per_user'', PInt 5)]) \<and>
   load_config example_open example_json_load ''config.json''
     \<noteq> Inr (with_field default_config ''posts_per_user'' (PInt 5)) \<and>
   getitem (PDict [(''posts_per_user'', PInt 5)]) ''wait_time'' = Inl (Exn KeyError ''wait_time'') \<and>
   getitem (with_field default_config ''posts_per_user'' (PInt 5)) ''wait_time''
     = Inr (PDict [(''min'', PInt 2), (''max'', PInt 4)])"
  by (simp add: load_config_def example_open_def example_json_load_def default_config_def)

text \<open>
  C1, amended. For a configuration file that exists and decodes, \<open>load_config\<close> returns
  the decoded content of the file as it is: a field that the file does not set is not in
  the configuration, and no default is filled in.
\<close>

theorem load_config_file:
  assumes "open_read config_path = Inr text" and "json_load text = Inr v"
  shows "load_config open_read json_load config_path = Inr v"
  using assms by (simp add: load_config_def)

theorem load_config_file_witness:
  \<open>example_open ''config.json'' = Inr ''{"posts_per_user": 5}'' \<and>
   example_json_load ''{"posts_per_user": 5}'' = Inr (PDict [(''posts_per_user'', PInt 5)]) \<and>
   load_config example_open example_json_load ''config.json''
     = Inr (PDict [(''posts_per_user'', PInt 5)])\<close>
  using load_config_file [of example_open "''config.json''" \<open>''{"posts_per_user": 5}''\<close>
      example_json_load "PDict [(''posts_per_user'', PInt 5)]"]
  by (simp add: example_open_def example_json_load_def)

section \<open>What an action leaves alone\<close>

lemma quiet_ret: "quiet P (ret x)"
  by (simp add: quiet_def ret_def)

lemma quiet_lift: "quiet P (lift r)"
  by (simp add: quiet_def lift_def)

lemma quiet_get_attr: "quiet P (get_attr f)"
  by (simp add: quiet_def get_attr_def)

lemma quiet_logger: "quiet P (logger lvl msg)"
  by (simp add: quiet_def logger_def)

lemma quiet_extern: "quiet P (extern f)"
  by (simp add: quiet_def extern_def split: prod.split)

lemma quiet_emit: "\<not> P ev \<Longrightarrow> quiet P (emit ev)"
  by (simp add: quiet_def emit_def)

lemma quiet_bind:
  assumes "quiet P m" and "\<And>x. quiet P (k x)"
  shows "quiet P (bind m k)"
  using assms by (auto simp: quiet_def bind_def split: prod.split sum.split) (metis snd_conv)+

lemma quiet_try_except:
  assumes "quiet P m" and "\<And>e. quiet P (h e)"
  shows "quiet P (try_except m h)"
  using assms by (auto simp: quiet_def try_except_def split: prod.split sum.split) (metis snd_conv)+

lemma quiet_try_finally:
  assumes "quiet P m" and "quiet P f"
  shows "quiet P (try_finally m f)"
  using assms by (auto simp: quiet_def try_finally_def split: prod.split sum.split) (metis snd_conv)+

lemma quiet_if: "quiet P m \<Longrightarrow> quiet P n \<Longrightarrow> quiet P (if c then m else n)"
  by simp

lemma quiet_call: "\<not> P ev \<Longrightarrow> quiet P (call ev f)"
  unfolding call_def by (intro quiet_bind quiet_emit quiet_extern)

lemmas quiet_intros =
  quiet_ret quiet_lift quiet_get_attr quiet_logger quiet_extern quiet_emit quiet_bind
  quiet_try_except quiet_try_finally quiet_if quiet_call

lemma quiet_config_item: "quiet P (config_item key)"
  unfolding config_item_def by (intro quiet_intros)

lemma quiet_config_item2: "quiet P (config_item2 key1 key2)"
  unfolding config_item2_def by (intro quiet_intros quiet_config_item)

lemma quiet_random_random: "quiet P (random_random env)"
  unfolding random_random_def by (rule quiet_extern)

lemma quiet_random_uniform: "quiet P (random_uniform env a b)"
  unfolding random_uniform_def
  by (auto split: option.split intro!: quiet_intros quiet_random_random)

lemma quiet_pick: "quiet P (pick env xs)"
  unfolding pick_def by (intro quiet_intros)

lemma quiet_random_choice: "quiet P (random_choice env v)"
  by (cases v) (auto intro!: quiet_intros quiet_pick)

text \<open>From here on \<open>P\<close> holds of no call on a page or on the clock.\<close>

lemma quiet_sleep:
  assumes "\<And>ev. page_call ev \<Longrightarrow> \<not> P ev"
  shows "quiet P (sleep env secs)"
  unfolding sleep_def by (intro quiet_intros) (simp add: assms)

lemma quiet_random_sleep:
  assumes "\<And>ev. page_call ev \<Longrightarrow> \<not> P ev"
  shows "quiet P (random_sleep env a b)"
  unfolding random_sleep_def
  by (intro quiet_intros quiet_config_item2 quiet_random_uniform quiet_sleep assms)

lemma quiet_wait_until:
  assumes "\<And>ev. page_call ev \<Longrightarrow> \<not> P ev"
  shows "quiet P (wait_until env loc)"
  unfolding wait_until_def by (intro quiet_intros) (simp add: assms)

lemma quiet_wait_until_all:
  assumes "\<And>ev. page_call ev \<Longrightarrow> \<not> P ev"
  shows "quiet P (wait_until_all env loc)"
  unfolding wait_until_all_def by (intro quiet_intros) (simp add: assms)

lemma quiet_click:
  assumes "\<And>ev. page_call ev \<Longrightarrow> \<not> P ev"
  shows "quiet P (click env el)"
  unfolding click_def by (intro quiet_intros) (simp add: assms)

lemma quiet_send_keys:
  assumes "\<And>ev. page_call ev \<Longrightarrow> \<not> P ev"
  shows "quiet P (send_keys env el keys)"
  unfolding send_keys_def by (intro quiet_intros) (simp add: assms)

lemma quiet_submit:
  assumes "\<And>ev. page_call ev \<Longrightarrow> \<not> P ev"
  shows "quiet P (submit env el)"
  unfolding submit_def by (intro quiet_intros) (simp add: assms)

lemmas quiet_calls =
  quiet_config_item quiet_config_item2 quiet_random_random quiet_random_uniform
  quiet_random_choice quiet_sleep quiet_random_sleep quiet_wait_until quiet_wait_until_all
  quiet_click quiet_send_keys quiet_submit

lemma quiet_login:
  assumes calls: "\<And>ev. page_call ev \<Longrightarrow> \<not> P ev" and "\<not> P Enter_login"
  shows "quiet P (login env)"
  unfolding login_def
  by (intro quiet_intros quiet_calls) (simp_all add: assms)

lemma quiet_leave_comment:
  assumes calls: "\<And>ev. page_call ev \<Longrightarrow> \<not> P ev" and "\<And>c. \<not> P (Enter_leave_comment c)"
  shows "quiet P (leave_comment env comment_text)"
  unfolding leave_comment_def
  by (intro quiet_intros quiet_calls) (simp_all add: assms)

lemma quiet_visit_post:
  assumes calls: "\<And>ev. page_call ev \<Longrightarrow> \<not> P ev" and "\<And>c. \<not> P (Enter_leave_comment c)"
    and "\<And>i. \<not> P (Enter_post i)"
  shows "quiet P (visit_post env user i post)"
  unfolding visit_post_def
  by (intro quiet_intros quiet_calls quiet_leave_comment) (simp_all add: assms)

lemma quiet_visit_posts:
  assumes calls: "\<And>ev. page_call ev \<Longrightarrow> \<not> P ev" and "\<And>c. \<not> P (Enter_leave_comment c)"
    and "\<And>i. \<not> P (Enter_post i)"
  shows "quiet P (visit_posts env user i posts)"
  by (induction posts arbitrary: i) (auto intro!: quiet_intros quiet_visit_post assms)

lemma quiet_interact_with_user:
  assumes calls: "\<And>ev. page_call ev \<Longrightarrow> \<not> P ev" and "\<And>c. \<not> P (Enter_leave_comment c)"
    and "\<And>i. \<not> P (Enter_post i)" and "\<And>u. \<not> P (Enter_interact_with_user u)"
  shows "quiet P (interact_with_user env user)"
  unfolding interact_with_user_def
  by (intro quiet_intros quiet_calls quiet_visit_posts) (simp_all add: assms)

lemma quiet_visit_users:
  assumes calls: "\<And>ev. page_call ev \<Longrightarrow> \<not> P ev" and "\<And>c. \<not> P (Enter_leave_comment c)"
    and "\<And>i. \<not> P (Enter_post i)" and "\<And>u. \<not> P (Enter_interact_with_user u)"
  shows "quiet P (visit_users env users)"
  by (induction users) (auto intro!: quiet_intros quiet_interact_with_user quiet_random_sleep assms)

lemma quiet_cleanup:
  assumes "\<not> P Driver_quit" and "\<not> P Enter_cleanup"
  shows "quiet P (cleanup env)"
  unfolding cleanup_def
  by (intro quiet_intros) (simp_all add: assms)

lemma quiet_run:
  assumes "\<And>ev. \<not> P ev"
  shows "quiet P (run env target_users)"
  unfolding run_def
  by (intro quiet_intros quiet_login quiet_visit_users quiet_cleanup) (simp_all add: assms)

lemma quietD:
  assumes "quiet P m"
  shows "config (snd (m b)) = config b" and "username (snd (m b)) = username b"
    and "password (snd (m b)) = password b"
    and "filter P (trace (snd (m b))) = filter P (trace b)"
  using assms by (simp_all add: quiet_def)

section \<open>Which actions return\<close>

lemma returns_ret: "returns (ret x)"
  by (simp add: returns_def ret_def)

lemma returns_logger: "returns (logger lvl msg)"
  by (simp add: returns_def logger_def)

lemma returns_emit: "returns (emit ev)"
  by (simp add: returns_def emit_def)

lemma returns_bind:
  assumes "returns m" and "\<And>x. returns (k x)"
  shows "returns (bind m k)"
  using assms by (auto simp: returns_def bind_def split: prod.split sum.split) (metis fst_conv isl_def)

lemma returns_try_except:
  assumes "\<And>e. returns (h e)"
  shows "returns (try_except m h)"
  using assms by (auto simp: returns_def try_except_def split: prod.split sum.split)

lemma returns_if: "returns m \<Longrightarrow> returns n \<Longrightarrow> returns (if c then m else n)"
  by simp

lemmas returns_intros =
  returns_ret returns_logger returns_emit returns_bind returns_try_except returns_if

lemma returnsD: "returns m \<Longrightarrow> fst (m b) = Inr ()"
  by (cases "fst (m b)") (auto simp: returns_def dest: spec [of _ b])

lemma returns_login: "returns (login env)"
  unfolding login_def by (intro returns_intros)

lemma returns_leave_comment: "returns (leave_comment env comment_text)"
  unfolding leave_comment_def by (intro returns_intros)




lemma returns_cleanup: "returns (cleanup env)"
  unfolding cleanup_def by (intro returns_intros)


section \<open>The control flow of a run\<close>

lemma snd_try_finally: "snd (try_finally m f b) = snd (f (snd (m b)))"
  by (simp add: try_finally_def split: prod.split sum.split)


lemma cleanup_trace: "trace (snd (cleanup env b)) = trace b @ [Enter_cleanup, Driver_quit]"
  by (simp add: cleanup_def bind_def try_except_def call_def emit_def extern_def logger_def
      split: prod.split sum.split)

text \<open>The body of \<^verbatim>\<open>run\<close> under its \<^verbatim>\<open>try\<close> neither enters cleanup nor quits the driver.\<close>

lemma run_body_quiet:
  assumes "\<And>ev. P ev \<Longrightarrow> ev = Enter_cleanup \<or> ev = Driver_quit"
  shows "quiet P
     (try_except
        (bind (ret (case target_users of Name s \<Rightarrow> [s] | Names users \<Rightarrow> users)) (\<lambda>target_users.
         bind (login env) (\<lambda>ok.
         if \<not> ok then ret ()
         else visit_users env target_users)))
        (\<lambda>e. logger ERROR [Lit ''Bot execution failed: '', Arg (PStr (str e))]))"
  by (intro quiet_intros quiet_login quiet_visit_users) (auto dest: assms)

lemma run_count:
  assumes "ev = Enter_cleanup \<or> ev = Driver_quit"
  shows "count_list (trace (snd (run env target_users b))) ev = Suc (count_list (trace b) ev)"
proof -
  have "quiet ((=) ev)
     (try_except
        (bind (ret (case target_users of Name s \<Rightarrow> [s] | Names users \<Rightarrow> users)) (\<lambda>target_users.
         bind (login env) (\<lambda>ok.
         if \<not> ok then ret ()
         else visit_users env target_users)))
        (\<lambda>e. logger ERROR [Lit ''Bot execution failed: '', Arg (PStr (str e))]))"
    by (rule run_body_quiet) (use assms in auto)
  from quietD(4) [OF this, of b] assms show ?thesis
    by (auto simp: count_list_eq_length_filter run_def snd_try_finally cleanup_trace)
qed

lemma run_login_failed:
  assumes "fst (login env b) = Inr False"
  shows "run env target_users b = cleanup env (snd (login env b))"
proof -
  obtain b1 where l: "login env b = (Inr False, b1)"
    using assms by (cases "login env b") auto
  obtain r b2 where c: "cleanup env b1 = (r, b2)"
    by (cases "cleanup env b1") auto
  show ?thesis
    by (cases r) (simp_all add: run_def try_finally_def try_except_def bind_def ret_def l c)
qed

text \<open>
  C4. In every run cleanup is invoked exactly once and the browser session is released
  exactly once, whether login fails, an exception is raised in the loop over the users,
  or the run completes: the run adds one entry of cleanup and one \<^verbatim>\<open>driver.quit()\<close> to the
  trace, and the quit is the last call of the run.
\<close>

theorem run_cleanup_once:
  "count_list (trace (snd (run env target_users b))) Enter_cleanup
     = Suc (count_list (trace b) Enter_cleanup) \<and>
   count_list (trace (snd (run env target_users b))) Driver_quit
     = Suc (count_list (trace b) Driver_quit) \<and>
   last (trace (snd (run env target_users b))) = Driver_quit \<and>
   last (butlast (trace (snd (run env target_users b)))) = Enter_cleanup"
  by (simp add: run_count) (simp add: run_def snd_try_finally cleanup_trace butlast_append)

text \<open>
  C5. When login returns false, the run is the login followed by cleanup alone: no
  profile is entered, cleanup is entered once, and the run returns.
\<close>

theorem run_login_false:
  assumes "fst (login env b) = Inr False"
  shows "run env target_users b = cleanup env (snd (login env b)) \<and>
         fst (run env target_users b) = Inr () \<and>
         filter entered_profile (trace (snd (run env target_users b)))
           = filter entered_profile (trace b) \<and>
         count_list (trace (snd (run env target_users b))) Enter_cleanup
           = Suc (count_list (trace b) Enter_cleanup)"
proof -
  have ql: "quiet entered_profile (login env)"
    by (rule quiet_login) (auto elim: page_call.elims)
  have qc: "quiet entered_profile (cleanup env)"
    by (rule quiet_cleanup) auto
  have 1: "run env target_users b = cleanup env (snd (login env b))"
    by (rule run_login_failed [OF assms])
  have 2: "fst (run env target_users b) = Inr ()"
    unfolding 1 by (rule returnsD [OF returns_cleanup])
  have 3: "filter entered_profile (trace (snd (run env target_users b)))
             = filter entered_profile (trace b)"
    unfolding 1 by (simp add: quietD(4) [OF qc] quietD(4) [OF ql])
  have 4: "count_list (trace (snd (run env target_users b))) Enter_cleanup
             = Suc (count_list (trace b) Enter_cleanup)"
    by (rule run_count) simp
  from 1 2 3 4 show ?thesis by blast
qed

theorem run_login_false_witness:
  "fst (login (example_env False) (example_bot default_config)) = Inr False \<and>
   fst (run (example_env False) (Names [''chairo_store101'', ''sandanu_hewage''])
          (example_bot default_config)) = Inr () \<and>
   filter entered_profile
     (trace (snd (run (example_env False) (Names [''chairo_store101'', ''sandanu_hewage''])
                    (example_bot default_config)))) = [] \<and>
   count_list
     (trace (snd (run (example_env False) (Names [''chairo_store101'', ''sandanu_hewage''])
                    (example_bot default_config)))) Enter_cleanup = 1"
proof -
  have l: "fst (login (example_env False) (example_bot default_config)) = Inr False"
    by (simp add: login_def bind_def try_except_def emit_def get_attr_def logger_def call_def
        extern_def wait_until_def ret_def example_env_def example_bot_def)
  have t: "trace (example_bot default_config) = []"
    by (simp add: example_bot_def)
  from run_login_false [OF l, of "Names [''chairo_store101'', ''sandanu_hewage'']", THEN conjunct2] l
  show ?thesis by (simp add: t)
qed

text \<open>
  C9. A run on one name is the run on the list of that one name.
\<close>

theorem run_name_is_singleton:
  "run env (Name s) b = run env (Names [s]) b"
  by (simp add: run_def)

section \<open>The configuration of a session\<close>

lemma config_item_state: "config_item key b = (getitem (config b) key, b)"
  by (simp add: config_item_def bind_def get_attr_def lift_def)







lemma init_config:
  assumes "init open_read json_load env user pass config_path w = Inr b"
  shows "load_config open_read json_load config_path = Inr (config b)"
  using assms by (auto simp: init_def split: sum.splits prod.splits)

text \<open>
  C8. The session object holds the value \<open>load_config\<close> returned, and no operation of
  the session changes it: random_sleep, login, interact_with_user, leave_comment, cleanup
  and run leave the configuration as they found it.
\<close>

theorem config_never_mutated:
  "(init open_read json_load env0 user pass config_path w = Inr b0 \<longrightarrow>
      load_config open_read json_load config_path = Inr (config b0)) \<and>
   config (snd (random_sleep env min_time max_time b)) = config b \<and>
   config (snd (login env b)) = config b \<and>
   config (snd (interact_with_user env name b)) = config b \<and>
   config (snd (leave_comment env comment_text b)) = config b \<and>
   config (snd (cleanup env b)) = config b \<and>
   config (snd (run env target_users b)) = config b"
proof -
  let ?P = "\<lambda>ev::event. False"
  have "config (snd (random_sleep env min_time max_time b)) = config b"
    by (rule quietD(1) [of ?P]) (rule quiet_random_sleep, simp)
  moreover have "config (snd (login env b)) = config b"
    by (rule quietD(1) [of ?P]) (rule quiet_login, simp_all)
  moreover have "config (snd (interact_with_user env name b)) = config b"
    by (rule quietD(1) [of ?P]) (rule quiet_interact_with_user, simp_all)
  moreover have "config (snd (leave_comment env comment_text b)) = config b"
    by (rule quietD(1) [of ?P]) (rule quiet_leave_comment, simp_all)
  moreover have "config (snd (cleanup env b)) = config b"
    by (rule quietD(1) [of ?P]) (rule quiet_cleanup, simp_all)
  moreover have "config (snd (run env target_users b)) = config b"
    by (rule quietD(1) [of ?P]) (rule quiet_run, simp)
  ultimately show ?thesis
    by (simp add: init_config)
qed

theorem config_never_mutated_witness:
  "init example_open example_json_load (example_env True) ''sandanu_hewage'' [] ''config.json'' 0
     = Inr (example_bot (PDict [(''posts_per_user'', PInt 5)])) \<and>
   load_config example_open example_json_load ''config.json''
     = Inr (PDict [(''posts_per_user'', PInt 5)]) \<and>
   config (snd (run (example_env True) (Name ''chairo_store101'')
                  (example_bot (PDict [(''posts_per_user'', PInt 5)]))))
     = PDict [(''posts_per_user'', PInt 5)]"
proof -
  have i: "init example_open example_json_load (example_env True) ''sandanu_hewage'' []
             ''config.json'' 0 = Inr (example_bot (PDict [(''posts_per_user'', PInt 5)]))"
    by (simp add: init_def load_config_def example_open_def example_json_load_def
        example_env_def example_bot_def)
  have c: "config (example_bot (PDict [(''posts_per_user'', PInt 5)]))
             = PDict [(''posts_per_user'', PInt 5)]"
    by (simp add: example_bot_def)
  from config_never_mutated [of example_open example_json_load "example_env True"
      "''sandanu_hewage''" "[]" "''config.json''" 0
      "example_bot (PDict [(''posts_per_user'', PInt 5)])" "example_env True" _ _
      "example_bot (PDict [(''posts_per_user'', PInt 5)])" _ _ "Name ''chairo_store101''"] i
  show ?thesis by (simp add: c)
qed



section \<open>Actions only append to the trace\<close>































section \<open>The clicks on the posts\<close>










section \<open>The loop over the posts and the loop over the profiles\<close>









section \<open>The limit on the posts of a profile\<close>












section \<open>The cap on the likes of a session\<close>

lemma same_but_cap_getitem:
  assumes "same_but_cap c1 c2" and "key \<noteq> ''max_likes_per_session''"
  shows "getitem c1 key = getitem c2 key"
proof (cases c1)
  case (PDict kvs1)
  show ?thesis
  proof (cases c2)
    case (PDict kvs2)
    have "map_of kvs1 key = map_of kvs2 key"
    proof (cases "key \<in> fst ` set kvs1 \<union> fst ` set kvs2")
      case True
      with assms \<open>c1 = PDict kvs1\<close> PDict show ?thesis by auto
    next
      case False
      then have "map_of kvs1 key = None" and "map_of kvs2 key = None"
        by (simp_all add: map_of_eq_None_iff)
      then show ?thesis by simp
    qed
    with \<open>c1 = PDict kvs1\<close> PDict show ?thesis by simp
  qed (use assms PDict in auto)
qed (use assms in auto)

lemma map_of_with_field:
  "k \<noteq> key \<Longrightarrow>
   map_of (map (\<lambda>(k, x). if k = key then (k, v) else (k, x)) kvs) k = map_of kvs k"
  by (induction kvs) auto

lemma same_but_cap_with_field: "same_but_cap c (with_field c ''max_likes_per_session'' v)"
proof (cases c)
  case (PDict kvs)
  have "key = ''max_likes_per_session'' \<or>
        map_of kvs key
          = map_of (map (\<lambda>(k, x). if k = ''max_likes_per_session'' then (k, v) else (k, x)) kvs) key"
    for key
    by (cases "key = ''max_likes_per_session''") (simp_all only: map_of_with_field simp_thms)
  then show ?thesis
    unfolding PDict with_field.simps same_but_cap.simps by blast
qed simp_all

lemma cap_blindE:
  assumes "cap_blind m" and "alike b1 b2"
  shows "fst (m b1) = fst (m b2)" and "alike (snd (m b1)) (snd (m b2))"
  using assms by (simp_all add: cap_blind_def)

lemma cap_blind_ret: "cap_blind (ret x)"
  by (simp add: cap_blind_def ret_def)

lemma cap_blind_lift: "cap_blind (lift r)"
  by (simp add: cap_blind_def lift_def)

lemma cap_blind_username: "cap_blind (get_attr username)"
  by (simp add: cap_blind_def get_attr_def alike_def)

lemma cap_blind_password: "cap_blind (get_attr password)"
  by (simp add: cap_blind_def get_attr_def alike_def)

lemma cap_blind_logger: "cap_blind (logger lvl msg)"
  by (simp add: cap_blind_def logger_def alike_def)

lemma cap_blind_emit: "cap_blind (emit ev)"
  by (simp add: cap_blind_def emit_def alike_def)

lemma cap_blind_extern: "cap_blind (extern f)"
  by (simp add: cap_blind_def extern_def alike_def split: prod.split)

lemma cap_blind_bind:
  assumes "cap_blind m" and "\<And>x. cap_blind (k x)"
  shows "cap_blind (bind m k)"
  unfolding cap_blind_def
proof (intro allI impI)
  fix b1 b2 :: "'a bot"
  assume a: "alike b1 b2"
  obtain r1 b1' where m1: "m b1 = (r1, b1')" by (cases "m b1") auto
  obtain r2 b2' where m2: "m b2 = (r2, b2')" by (cases "m b2") auto
  from cap_blindE [OF assms(1) a] m1 m2 have r: "r1 = r2" and a': "alike b1' b2'"
    by simp_all
  show "fst (bind m k b1) = fst (bind m k b2) \<and> alike (snd (bind m k b1)) (snd (bind m k b2))"
  proof (cases r1)
    case (Inl e)
    with r a' m1 m2 show ?thesis by (auto simp: bind_def)
  next
    case (Inr x)
    with r a' m1 m2 cap_blindE [OF assms(2) a', of x] show ?thesis by (auto simp: bind_def)
  qed
qed

lemma cap_blind_try_except:
  assumes "cap_blind m" and "\<And>e. cap_blind (h e)"
  shows "cap_blind (try_except m h)"
  unfolding cap_blind_def
proof (intro allI impI)
  fix b1 b2 :: "'a bot"
  assume a: "alike b1 b2"
  obtain r1 b1' where m1: "m b1 = (r1, b1')" by (cases "m b1") auto
  obtain r2 b2' where m2: "m b2 = (r2, b2')" by (cases "m b2") auto
  from cap_blindE [OF assms(1) a] m1 m2 have r: "r1 = r2" and a': "alike b1' b2'"
    by simp_all
  show "fst (try_except m h b1) = fst (try_except m h b2) \<and>
        alike (snd (try_except m h b1)) (snd (try_except m h b2))"
  proof (cases r1)
    case (Inl e)
    with r a' m1 m2 cap_blindE [OF assms(2) a', of e] show ?thesis
      by (auto simp: try_except_def)
  next
    case (Inr x)
    with r a' m1 m2 show ?thesis by (auto simp: try_except_def)
  qed
qed

lemma cap_blind_try_finally:
  assumes "cap_blind m" and "cap_blind f"
  shows "cap_blind (try_finally m f)"
  unfolding cap_blind_def
proof (intro allI impI)
  fix b1 b2 :: "'a bot"
  assume a: "alike b1 b2"
  obtain r1 b1' where m1: "m b1 = (r1, b1')" by (cases "m b1") auto
  obtain r2 b2' where m2: "m b2 = (r2, b2')" by (cases "m b2") auto
  from cap_blindE [OF assms(1) a] m1 m2 have r: "r1 = r2" and a': "alike b1' b2'"
    by simp_all
  obtain s1 b1'' where f1: "f b1' = (s1, b1'')" by (cases "f b1'") auto
  obtain s2 b2'' where f2: "f b2' = (s2, b2'')" by (cases "f b2'") auto
  from cap_blindE [OF assms(2) a'] f1 f2 have s: "s1 = s2" and a'': "alike b1'' b2''"
    by simp_all
  from r s a'' m1 m2 f1 f2
  show "fst (try_finally m f b1) = fst (try_finally m f b2) \<and>
        alike (snd (try_finally m f b1)) (snd (try_finally m f b2))"
    by (cases s2) (auto simp: try_finally_def)
qed

lemma cap_blind_if: "cap_blind m \<Longrightarrow> cap_blind n \<Longrightarrow> cap_blind (if c then m else n)"
  by simp

lemma cap_blind_call: "cap_blind (call ev f)"
  unfolding call_def by (intro cap_blind_bind cap_blind_emit cap_blind_extern)

lemmas cap_blind_intros =
  cap_blind_ret cap_blind_lift cap_blind_username cap_blind_password cap_blind_logger
  cap_blind_emit cap_blind_extern cap_blind_bind cap_blind_try_except cap_blind_try_finally
  cap_blind_if cap_blind_call

text \<open>Reading any key of the configuration but the cap gives the same in both sessions.\<close>

lemma cap_blind_config_item:
  assumes "key \<noteq> ''max_likes_per_session''"
  shows "cap_blind (config_item key)"
  using assms
  by (auto simp: cap_blind_def config_item_state alike_def dest: same_but_cap_getitem)

lemma cap_blind_config_item2:
  assumes "key1 \<noteq> ''max_likes_per_session''"
  shows "cap_blind (config_item2 key1 key2)"
  unfolding config_item2_def
  by (intro cap_blind_intros cap_blind_config_item assms)

lemma cap_blind_random_random: "cap_blind (random_random env)"
  unfolding random_random_def by (rule cap_blind_extern)

lemma cap_blind_random_uniform: "cap_blind (random_uniform env a b)"
  unfolding random_uniform_def
  by (auto split: option.split intro!: cap_blind_intros cap_blind_random_random)

lemma cap_blind_pick: "cap_blind (pick env xs)"
  unfolding pick_def by (intro cap_blind_intros)

lemma cap_blind_random_choice: "cap_blind (random_choice env v)"
  by (cases v) (auto intro!: cap_blind_intros cap_blind_pick)

lemma cap_blind_sleep: "cap_blind (sleep env secs)"
  unfolding sleep_def by (intro cap_blind_intros)

lemma cap_blind_random_sleep: "cap_blind (random_sleep env a b)"
  unfolding random_sleep_def
  by (intro cap_blind_intros cap_blind_config_item2 cap_blind_random_uniform cap_blind_sleep)
    simp_all

lemma cap_blind_wait_until: "cap_blind (wait_until env loc)"
  unfolding wait_until_def by (rule cap_blind_call)

lemma cap_blind_wait_until_all: "cap_blind (wait_until_all env loc)"
  unfolding wait_until_all_def by (rule cap_blind_call)

lemma cap_blind_click: "cap_blind (click env el)"
  unfolding click_def by (rule cap_blind_call)

lemma cap_blind_send_keys: "cap_blind (send_keys env el keys)"
  unfolding send_keys_def by (rule cap_blind_call)

lemma cap_blind_submit: "cap_blind (submit env el)"
  unfolding submit_def by (rule cap_blind_call)

lemmas cap_blind_calls =
  cap_blind_random_random cap_blind_random_uniform cap_blind_random_choice cap_blind_sleep
  cap_blind_random_sleep cap_blind_wait_until cap_blind_wait_until_all cap_blind_click
  cap_blind_send_keys cap_blind_submit

lemma cap_blind_login: "cap_blind (login env)"
  unfolding login_def by (intro cap_blind_intros cap_blind_calls)

lemma cap_blind_leave_comment: "cap_blind (leave_comment env comment_text)"
  unfolding leave_comment_def by (intro cap_blind_intros cap_blind_calls)

lemma cap_blind_visit_post: "cap_blind (visit_post env user i post)"
  unfolding visit_post_def
  by (intro cap_blind_intros cap_blind_calls cap_blind_leave_comment cap_blind_config_item)
    simp_all

lemma cap_blind_visit_posts: "cap_blind (visit_posts env user i posts)"
  by (induction posts arbitrary: i) (auto intro!: cap_blind_intros cap_blind_visit_post)

lemma cap_blind_interact_with_user: "cap_blind (interact_with_user env user)"
  unfolding interact_with_user_def
  by (intro cap_blind_intros cap_blind_calls cap_blind_visit_posts cap_blind_config_item)
    simp_all

lemma cap_blind_cleanup: "cap_blind (cleanup env)"
  unfolding cleanup_def by (intro cap_blind_intros)

lemma cap_blind_visit_users: "cap_blind (visit_users env users)"
  by (induction users)
    (auto intro!: cap_blind_intros cap_blind_interact_with_user cap_blind_random_sleep)

lemma cap_blind_run: "cap_blind (run env target_users)"
  unfolding run_def
  by (intro cap_blind_intros cap_blind_login cap_blind_visit_users cap_blind_cleanup)

lemma cap_blindD:
  assumes "cap_blind m" and "same_but_cap c1 c2"
  shows "fst (m (b\<lparr>config := c1\<rparr>)) = fst (m (b\<lparr>config := c2\<rparr>))"
    and "trace (snd (m (b\<lparr>config := c1\<rparr>))) = trace (snd (m (b\<lparr>config := c2\<rparr>)))"
    and "world (snd (m (b\<lparr>config := c1\<rparr>))) = world (snd (m (b\<lparr>config := c2\<rparr>)))"
    and "logged (snd (m (b\<lparr>config := c1\<rparr>))) = logged (snd (m (b\<lparr>config := c2\<rparr>)))"
proof -
  have "alike (b\<lparr>config := c1\<rparr>) (b\<lparr>config := c2\<rparr>)"
    using assms(2) by (simp add: alike_def)
  with assms(1)
  have "fst (m (b\<lparr>config := c1\<rparr>)) = fst (m (b\<lparr>config := c2\<rparr>)) \<and>
        alike (snd (m (b\<lparr>config := c1\<rparr>))) (snd (m (b\<lparr>config := c2\<rparr>)))"
    unfolding cap_blind_def by blast
  then show "fst (m (b\<lparr>config := c1\<rparr>)) = fst (m (b\<lparr>config := c2\<rparr>))"
    and "trace (snd (m (b\<lparr>config := c1\<rparr>))) = trace (snd (m (b\<lparr>config := c2\<rparr>)))"
    and "world (snd (m (b\<lparr>config := c1\<rparr>))) = world (snd (m (b\<lparr>config := c2\<rparr>)))"
    and "logged (snd (m (b\<lparr>config := c1\<rparr>))) = logged (snd (m (b\<lparr>config := c2\<rparr>)))"
    by (simp_all add: alike_def)
qed

text \<open>
  C7. The cap on the likes is never enforced: two sessions whose configurations differ at
  most in \<^verbatim>\<open>max_likes_per_session\<close> behave alike. A run, and likewise the visit of one
  profile, ends the same way, issues the same sequence of calls to the browser and the
  clock (the posts visited, the likes, the comments), leaves the browser in the same
  state and writes the same log.
\<close>

theorem like_cap_never_enforced:
  assumes "same_but_cap c1 c2"
  shows "fst (run env target_users (b\<lparr>config := c1\<rparr>))
           = fst (run env target_users (b\<lparr>config := c2\<rparr>)) \<and>
         trace (snd (run env target_users (b\<lparr>config := c1\<rparr>)))
           = trace (snd (run env target_users (b\<lparr>config := c2\<rparr>))) \<and>
         world (snd (run env target_users (b\<lparr>config := c1\<rparr>)))
           = world (snd (run env target_users (b\<lparr>config := c2\<rparr>))) \<and>
         logged (snd (run env target_users (b\<lparr>config := c1\<rparr>)))
           = logged (snd (run env target_users (b\<lparr>config := c2\<rparr>))) \<and>
         fst (interact_with_user env user (b\<lparr>config := c1\<rparr>))
           = fst (interact_with_user env user (b\<lparr>config := c2\<rparr>)) \<and>
         trace (snd (interact_with_user env user (b\<lparr>config := c1\<rparr>)))
           = trace (snd (interact_with_user env user (b\<lparr>config := c2\<rparr>))) \<and>
         world (snd (interact_with_user env user (b\<lparr>config := c1\<rparr>)))
           = world (snd (interact_with_user env user (b\<lparr>config := c2\<rparr>))) \<and>
         logged (snd (interact_with_user env user (b\<lparr>config := c1\<rparr>)))
           = logged (snd (interact_with_user env user (b\<lparr>config := c2\<rparr>)))"
  using cap_blindD [OF cap_blind_run assms, of env target_users b]
    cap_blindD [OF cap_blind_interact_with_user assms, of env user b]
  by blast

theorem like_cap_never_enforced_witness:
  "same_but_cap default_config (with_field default_config ''max_likes_per_session'' (PInt 1)) \<and>
   getitem default_config ''max_likes_per_session'' = Inr (PInt 50) \<and>
   getitem (with_field default_config ''max_likes_per_session'' (PInt 1))
     ''max_likes_per_session'' = Inr (PInt 1) \<and>
   trace (snd (run (example_env True) (Name ''chairo_store101'') (example_bot default_config)))
     = trace (snd (run (example_env True) (Name ''chairo_store101'')
                     (example_bot (with_field default_config ''max_likes_per_session'' (PInt 1)))))"
proof -
  have s: "same_but_cap default_config
             (with_field default_config ''max_likes_per_session'' (PInt 1))"
    by (simp add: default_config_def)
  have g: "getitem default_config ''max_likes_per_session'' = Inr (PInt 50)"
    "getitem (with_field default_config ''max_likes_per_session'' (PInt 1))
       ''max_likes_per_session'' = Inr (PInt 1)"
    by (simp_all add: default_config_def)
  have b: "example_bot c = (example_bot default_config)\<lparr>config := c\<rparr>" for c
    by (simp add: example_bot_def)
  from like_cap_never_enforced [OF s, of "example_env True" "Name ''chairo_store101''"
      "example_bot default_config"]
  have "trace (snd (run (example_env True) (Name ''chairo_store101'')
                      ((example_bot default_config)\<lparr>config := default_config\<rparr>)))
          = trace (snd (run (example_env True) (Name ''chairo_store101'')
                      ((example_bot default_config)\<lparr>config :=
                         with_field default_config ''max_likes_per_session'' (PInt 1)\<rparr>)))"
    by blast
  then have "trace (snd (run (example_env True) (Name ''chairo_store101'')
                      (example_bot default_config)))
          = trace (snd (run (example_env True) (Name ''chairo_store101'')
                      (example_bot (with_field default_config ''max_likes_per_session'' (PInt 1)))))"
    by (simp only: b [symmetric])
  with s g show ?thesis by blast
qed

end
